theory Spec2Isabelle
  imports Main
begin

section \<open>ScholarSync: the structured-generation client (services/geminiService.ts)\<close>

text \<open>
  The development embeds \<open>analyzeArticles\<close>, the one function of the service module:
  it renders the prompt, builds the request parts from the uploaded files, calls the
  generation service and retries a bounded number of times on quota and overload errors.

  JavaScript strings are modelled as \<open>string\<close> (their code units as \<open>char\<close>), the
  environment variable, the remote service and the platform's \<open>JSON.parse\<close> are
  parameters collected in an environment record, an exception is the \<open>Inl\<close> side of a
  sum, and the calls and timer waits the function performs are recorded in a trace.
  Console output is not part of the model, and constructing the client object from the
  key is taken to succeed.
\<close>

subsection \<open>JavaScript string operations used by the module\<close>

text \<open>\<open>s.startsWith(p)\<close> read at the head of \<open>s\<close>.\<close>

fun startsWith :: "string \<Rightarrow> string \<Rightarrow> bool" where
  "startsWith s [] = True"
| "startsWith [] (p # ps) = False"
| "startsWith (c # cs) (p # ps) = (c = p \<and> startsWith cs ps)"

text \<open>\<open>s.indexOf(p)\<close>: the first position at which \<open>p\<close> occurs, \<open>None\<close> for JavaScript's -1.\<close>

fun indexOf :: "string \<Rightarrow> string \<Rightarrow> nat option" where
  "indexOf [] p = (if p = [] then Some 0 else None)"
| "indexOf (c # cs) p =
     (if startsWith (c # cs) p then Some 0 else map_option Suc (indexOf cs p))"

text \<open>\<open>s.includes(p)\<close>.\<close>

definition includes_str :: "string \<Rightarrow> string \<Rightarrow> bool" where
  "includes_str s p = (indexOf s p \<noteq> None)"

text \<open>
  The abstract operation GetSubstitution of ECMAScript, for a string pattern (no capture
  groups, no named groups): in the replacement text \<open>$$\<close> stands for a dollar sign,
  \<open>$&\<close> for the matched text, \<open>$`\<close> for the text before the match and \<open>$'\<close> for the
  text after it; a dollar sign followed by anything else is kept as it is.
\<close>

fun GetSubstitution :: "string \<Rightarrow> string \<Rightarrow> nat \<Rightarrow> string \<Rightarrow> string" where
  "GetSubstitution matched str position [] = []"
| "GetSubstitution matched str position [c] = [c]"
| "GetSubstitution matched str position (c # d # r) =
     (if c = CHR ''$'' then
        (if d = CHR ''$'' then CHR ''$'' # GetSubstitution matched str position r
         else if d = CHR ''&'' then matched @ GetSubstitution matched str position r
         else if d = CHR ''`'' then take position str @ GetSubstitution matched str position r
         else if d = CHR 0x27 then
           drop (position + length matched) str @ GetSubstitution matched str position r
         else c # GetSubstitution matched str position (d # r))
      else c # GetSubstitution matched str position (d # r))"

text \<open>
  \<open>s.replace(p, r)\<close> with a string pattern: only the first occurrence is replaced, and
  the replacement text goes through GetSubstitution.
\<close>

definition replace :: "string \<Rightarrow> string \<Rightarrow> string \<Rightarrow> string" where
  "replace s p r =
     (case indexOf s p of
        None \<Rightarrow> s
      | Some pos \<Rightarrow> take pos s @ GetSubstitution p s pos r @ drop (pos + length p) s)"

text \<open>\<open>s.split(sep)\<close> for a one-character separator: never the empty array.\<close>

fun split :: "char \<Rightarrow> string \<Rightarrow> string list" where
  "split sep [] = [[]]"
| "split sep (c # cs) =
     (if c = sep then [] # split sep cs
      else (case split sep cs of
              [] \<Rightarrow> [[c]]
            | w # ws \<Rightarrow> (c # w) # ws))"

text \<open>\<open>xs[i]\<close> on an array: \<open>None\<close> is JavaScript's \<open>undefined\<close> beyond the end.\<close>

definition at_index :: "'a list \<Rightarrow> nat \<Rightarrow> 'a option" where
  "at_index xs i = (if i < length xs then Some (xs ! i) else None)"

text \<open>Truthiness of a value that is a string or \<open>undefined\<close>: \<open>!v\<close> holds for both
  \<open>undefined\<close> and the empty string.\<close>

definition falsy :: "string option \<Rightarrow> bool" where
  "falsy v = (case v of None \<Rightarrow> True | Some s \<Rightarrow> s = [])"

subsection \<open>Data model (types.ts and the request sent to the service)\<close>

text \<open>\<open>FileInput\<close>: of the browser's \<open>File\<close> object only \<open>file.type\<close> is read.\<close>

record FileInput =
  file_type :: string
  base64 :: string

datatype part =
    TextPart (part_text: string)
  | InlineData (mimeType: string) (data: "string option")

text \<open>The response schema is data in the source; \<open>STRING\<close> carries its optional enum.\<close>

datatype Schema =
    STRING "string list option"
  | NUMBER
  | ARRAY Schema
  | OBJECT "(string \<times> Schema) list" "string list"

record request =
  model :: string
  parts :: "part list"
  responseMimeType :: string
  responseSchema :: Schema
  thinkingBudget :: nat

text \<open>The values \<open>JSON.parse\<close> produces; an object is its list of members, and a
  number is kept as an integer (no property below looks inside a number).\<close>

datatype json =
    JNull
  | JBool bool
  | JNumber int
  | JString string
  | JArray "json list"
  | JObject "(string \<times> json) list"

text \<open>
  A thrown value, as far as the handler reads it: \<open>message\<close> (a string or absent, as
  in an \<open>Error\<close> object), \<open>status\<close> and \<open>code\<close> (compared with \<open>===\<close> against a
  number).
\<close>

datatype jsval = JSUndefined | JSNumber int | JSString string

record jserror =
  message :: "string option"
  status :: jsval
  code :: jsval

text \<open>\<open>new Error(msg)\<close>.\<close>

definition Error :: "string \<Rightarrow> jserror" where
  "Error msg = \<lparr>message = Some msg, status = JSUndefined, code = JSUndefined\<rparr>"

text \<open>What one call of \<open>ai.models.generateContent\<close> does: it throws, or it returns a
  response whose \<open>text\<close> is a string or \<open>undefined\<close>.\<close>

datatype outcome = Threw jserror | Responded "string option"

text \<open>
  The surroundings of the function: the environment variable \<open>API_KEY\<close>, the remote
  service (its outcome may depend on how many calls came before and on the request), and
  \<open>JSON.parse\<close>, which returns a value or throws.
\<close>

record env =
  API_KEY :: "string option"
  generateContent :: "nat \<Rightarrow> request \<Rightarrow> outcome"
  JSON_parse :: "string \<Rightarrow> jserror + json"

datatype event = Call request | Wait nat

record run =
  result :: "jserror + json"
  trace :: "event list"

subsection \<open>Request construction\<close>

text \<open>
  The template literal, written as the text before the placeholder and the text after it;
  the template is the first, the placeholder \<open>{RESEARCH_TOPIC}\<close> and the second.
\<close>

definition template_head :: string where
  \<open>template_head = concat
   [''\<newline>'',
    ''You are an Academic Research Assistant specialized in Systematic Literature Reviews. \<newline>'',
    ''Your goal is to analyze the provided batch of research articles (PDFs) and evaluate their relevance to the specific Research Topic provided below.\<newline>'',
    ''\<newline>'',
    ''Research Topic: "'']\<close>

definition template_tail :: string where
  \<open>template_tail = concat
   [''"\<newline>'',
    ''\<newline>'',
    ''Follow these stages rigorously:\<newline>'',
    ''\<newline>'',
    ''STAGE 1: DEEP INDIVIDUAL ANALYSIS\<newline>'',
    ''For each article, analyze:\<newline>'',
    ''- Identification (Title, Authors, Year)\<newline>'',
    ''- Relevance Rating (0-100) based on alignment with the topic.\<newline>'',
    ''- Rating Justification (Brief explanation).\<newline>'',
    ''- Methodological Summary.\<newline>'',
    ''- Key Contributions.\<newline>'',
    ''- Thesis Integration advice.\<newline>'',
    ''\<newline>'',
    ''STAGE 2: SUMMARY OVERVIEW TABLE\<newline>'',
    ''Provide data for a concise table: Article Name, Rating, Core Conclusion, Utility (Low/Medium/High).\<newline>'',
    ''\<newline>'',
    ''STAGE 3: SYNTHESIS MATRIX\<newline>'',
    ''Compare articles across:\<newline>'',
    ''- Common themes/frameworks.\<newline>'',
    ''- Divergent results/conflicting viewpoints.\<newline>'',
    ''- Research gaps.\<newline>'',
    ''\<newline>'',
    ''GUIDELINES:\<newline>'',
    ''- Objective, academic tone.\<newline>'',
    ''- If rating < 30, provide a brief summary.\<newline>'',
    ''- If rating > 85, highlight specific strong points.\<newline>'',
    ''\<newline>'',
    ''Return the result in the specified JSON structure.\<newline>'']\<close>

definition PROMPT_TEMPLATE :: string where
  "PROMPT_TEMPLATE = template_head @ ''{RESEARCH_TOPIC}'' @ template_tail"

definition renderPrompt :: "string \<Rightarrow> string" where
  "renderPrompt topic = replace PROMPT_TEMPLATE ''{RESEARCH_TOPIC}'' topic"

text \<open>The body of the loop over the files: \<open>fileInput.base64.split(',')[1]\<close>.\<close>

definition filePart :: "FileInput \<Rightarrow> part" where
  "filePart fileInput =
     InlineData (file_type fileInput) (at_index (split CHR '','' (base64 fileInput)) 1)"

definition buildParts :: "string \<Rightarrow> FileInput list \<Rightarrow> part list" where
  "buildParts topic files = TextPart (renderPrompt topic) # map filePart files"

text \<open>The schema attached to every request.\<close>

definition individualAnalysisSchema :: Schema where
  "individualAnalysisSchema = OBJECT
     [(''title'', STRING None),
      (''authors'', STRING None),
      (''year'', STRING None),
      (''relevanceRating'', NUMBER),
      (''ratingJustification'', STRING None),
      (''methodologicalSummary'', STRING None),
      (''keyContributions'', STRING None),
      (''thesisIntegration'', STRING None)]
     [''title'', ''authors'', ''year'', ''relevanceRating'', ''ratingJustification'',
      ''methodologicalSummary'', ''keyContributions'', ''thesisIntegration'']"

definition summaryRowSchema :: Schema where
  "summaryRowSchema = OBJECT
     [(''article'', STRING None),
      (''rating'', NUMBER),
      (''coreConclusion'', STRING None),
      (''utility'', STRING (Some [''Low'', ''Medium'', ''High'']))]
     [''article'', ''rating'', ''coreConclusion'', ''utility'']"

definition synthesisMatrixSchema :: Schema where
  "synthesisMatrixSchema = OBJECT
     [(''commonThemes'', ARRAY (STRING None)),
      (''divergentResults'', ARRAY (STRING None)),
      (''researchGaps'', ARRAY (STRING None))]
     [''commonThemes'', ''divergentResults'', ''researchGaps'']"

definition responseSchema_value :: Schema where
  "responseSchema_value = OBJECT
     [(''individualAnalyses'', ARRAY individualAnalysisSchema),
      (''summaryTable'', ARRAY summaryRowSchema),
      (''synthesisMatrix'', synthesisMatrixSchema)]
     [''individualAnalyses'', ''summaryTable'', ''synthesisMatrix'']"

text \<open>The argument of \<open>generateContent\<close>; it is the same on every attempt.\<close>

definition mkRequest :: "string \<Rightarrow> FileInput list \<Rightarrow> request" where
  "mkRequest topic files =
     \<lparr>model = ''gemini-3-flash-preview'',
      parts = buildParts topic files,
      responseMimeType = ''application/json'',
      responseSchema = responseSchema_value,
      thinkingBudget = 2048\<rparr>"

subsection \<open>The declared shape of a response\<close>

text \<open>
  What the schema asks of a value: the declared type at every place, a string among the
  enum's values where an enum is given, every element of an array of the item shape, and
  in an object every required member present and every declared member that is present
  of its declared shape. The client never evaluates this predicate; it states what a
  well-formed payload is.
\<close>

fun conforms :: "Schema \<Rightarrow> json \<Rightarrow> bool" where
  "conforms (STRING None) v = (case v of JString s \<Rightarrow> True | _ \<Rightarrow> False)"
| "conforms (STRING (Some enum)) v = (case v of JString s \<Rightarrow> s \<in> set enum | _ \<Rightarrow> False)"
| "conforms NUMBER v = (case v of JNumber n \<Rightarrow> True | _ \<Rightarrow> False)"
| "conforms (ARRAY item) v = (case v of JArray xs \<Rightarrow> list_all (conforms item) xs | _ \<Rightarrow> False)"
| "conforms (OBJECT properties required) v =
     (case v of
        JObject members \<Rightarrow>
          list_all (\<lambda>r. map_of members r \<noteq> None) required \<and>
          list_all (\<lambda>(k, s). case map_of members k of None \<Rightarrow> True | Some x \<Rightarrow> conforms s x)
            properties
      | _ \<Rightarrow> False)"

subsection \<open>The retry loop\<close>

definition maxRetries :: nat where
  "maxRetries = 3"

text \<open>\<open>error.message?.includes('429') || error.status === 429 || error.code === 429\<close>\<close>

definition isQuotaError :: "jserror \<Rightarrow> bool" where
  "isQuotaError error =
     ((case message error of None \<Rightarrow> False | Some m \<Rightarrow> includes_str m ''429'')
      \<or> status error = JSNumber 429 \<or> code error = JSNumber 429)"

text \<open>\<open>error.message?.includes('503') || error.status === 503\<close>\<close>

definition isServerOverload :: "jserror \<Rightarrow> bool" where
  "isServerOverload error =
     ((case message error of None \<Rightarrow> False | Some m \<Rightarrow> includes_str m ''503'')
      \<or> status error = JSNumber 503)"

text \<open>
  The \<open>try\<close> block of one iteration, given the number of calls made before it: the call,
  the check of \<open>response.text\<close> and \<open>JSON.parse\<close>. \<open>Inl\<close> is the value the \<open>catch\<close>
  clause receives, \<open>Inr\<close> the value returned to the caller.
\<close>

definition tryBlock :: "env \<Rightarrow> request \<Rightarrow> nat \<Rightarrow> jserror + json" where
  "tryBlock e req n =
     (case generateContent e n req of
        Threw err \<Rightarrow> Inl err
      | Responded txt \<Rightarrow>
          (if falsy txt then Inl (Error ''No response generated'')
           else JSON_parse e (case txt of None \<Rightarrow> [] | Some s \<Rightarrow> s)))"

fun ncalls :: "event list \<Rightarrow> nat" where
  "ncalls [] = 0"
| "ncalls (Call r # es) = Suc (ncalls es)"
| "ncalls (Wait ms # es) = ncalls es"

fun waits :: "event list \<Rightarrow> nat list" where
  "waits [] = []"
| "waits (Call r # es) = waits es"
| "waits (Wait ms # es) = ms # waits es"

text \<open>
  \<open>while (true)\<close> with the counter \<open>attempt\<close>; \<open>tr\<close> is the trace so far. The loop is left
  by \<open>return\<close> or by \<open>throw\<close>; \<open>continue\<close> is the recursive call, after \<open>attempt++\<close> and
  the wait of \<open>2000 * Math.pow(2, attempt - 1)\<close> milliseconds.
\<close>

function attemptLoop :: "env \<Rightarrow> request \<Rightarrow> nat \<Rightarrow> event list \<Rightarrow> run" where
  "attemptLoop e req attempt tr =
     (case tryBlock e req (ncalls tr) of
        Inr v \<Rightarrow> \<lparr>result = Inr v, trace = tr @ [Call req]\<rparr>
      | Inl error \<Rightarrow>
          (if (isQuotaError error \<or> isServerOverload error) \<and> attempt < maxRetries
           then attemptLoop e req (attempt + 1)
                  (tr @ [Call req, Wait (2000 * 2 ^ (attempt + 1 - 1))])
           else \<lparr>result = Inl error, trace = tr @ [Call req]\<rparr>))"
  by pat_completeness auto
termination
  by (relation "measure (\<lambda>(e, req, attempt, tr). maxRetries - attempt)") auto

definition analyzeArticles :: "env \<Rightarrow> string \<Rightarrow> FileInput list \<Rightarrow> run" where
  "analyzeArticles e topic files =
     (if falsy (API_KEY e)
      then \<lparr>result = Inl (Error ''API Key is missing in environment variables''), trace = []\<rparr>
      else attemptLoop e (mkRequest topic files) 0 [])"

subsection \<open>Vocabulary of the specification\<close>

text \<open>
  The prompt the specification describes: the template with the topic text in the place
  of the placeholder.
\<close>

definition substituted :: "string \<Rightarrow> string" where
  "substituted topic = template_head @ topic @ template_tail"

text \<open>A failure signature of one of the two retried classes.\<close>

definition transient :: "jserror \<Rightarrow> bool" where
  "transient error = (isQuotaError error \<or> isServerOverload error)"

text \<open>\<open>error.message?.includes(s)\<close> is truthy.\<close>

definition messageIncludes :: "jserror \<Rightarrow> string \<Rightarrow> bool" where
  "messageIncludes error s =
     (case message error of None \<Rightarrow> False | Some m \<Rightarrow> includes_str m s)"

text \<open>The attempt after \<open>n\<close> earlier calls ends in the handler with a transient error.\<close>

definition transientFailure :: "env \<Rightarrow> request \<Rightarrow> nat \<Rightarrow> bool" where
  "transientFailure e req n =
     (case tryBlock e req n of Inl error \<Rightarrow> transient error | Inr v \<Rightarrow> False)"

text \<open>The specification's delay before retry number \<open>attempt\<close> (1, 2, 3), in milliseconds.\<close>

definition backoff :: "nat \<Rightarrow> nat" where
  "backoff attempt = 2000 * 2 ^ (attempt - 1)"

text \<open>
  The trace of a run that is at attempt counter \<open>a\<close> and retries until the counter is
  \<open>k\<close>: a call and a wait for each retry, then the last call.
\<close>

definition retryTrace :: "request \<Rightarrow> nat \<Rightarrow> nat \<Rightarrow> event list" where
  "retryTrace req a k =
     concat (map (\<lambda>i. [Call req, Wait (backoff (Suc i))]) [a..<k]) @ [Call req]"

subsection \<open>Test doubles for the surroundings\<close>

text \<open>A service that answers its calls from a script, and fails to connect afterwards.\<close>

definition scripted :: "outcome list \<Rightarrow> nat \<Rightarrow> request \<Rightarrow> outcome" where
  "scripted outs n req = (if n < length outs then outs ! n else Threw (Error ''fetch failed''))"

text \<open>A parser that knows the texts of a table and rejects every other text.\<close>

definition parseTable :: "(string \<times> json) list \<Rightarrow> string \<Rightarrow> jserror + json" where
  "parseTable tbl s =
     (case map_of tbl s of
        Some v \<Rightarrow> Inr v
      | None \<Rightarrow> Inl (Error ''Unexpected end of JSON input''))"

text \<open>A parser that rejects every text, with the given message for its \<open>SyntaxError\<close>.\<close>

definition rejecting :: "string \<Rightarrow> string \<Rightarrow> jserror + json" where
  "rejecting msg s = Inl (Error msg)"

definition testEnv :: "string option \<Rightarrow> outcome list \<Rightarrow> (string \<times> json) list \<Rightarrow> env" where
  "testEnv key outs tbl =
     \<lparr>API_KEY = key, generateContent = scripted outs, JSON_parse = parseTable tbl\<rparr>"

text \<open>An uploaded PDF as the file picker delivers it, and one without the data-URL prefix.\<close>

definition pdfUpload :: FileInput where
  "pdfUpload = \<lparr>file_type = ''application/pdf'',
                 base64 = ''data:application/pdf;base64,JVBERi0xLjQK''\<rparr>"

definition rawUpload :: FileInput where
  "rawUpload = \<lparr>file_type = ''application/pdf'', base64 = ''JVBERi0xLjQK''\<rparr>"

text \<open>A payload of the declared shape, and one whose summary row has no \<open>utility\<close>.\<close>

definition emptyMatrix :: json where
  "emptyMatrix = JObject
     [(''commonThemes'', JArray []),
      (''divergentResults'', JArray []),
      (''researchGaps'', JArray [JString ''long-term effects''])]"

definition goodPayload :: json where
  "goodPayload = JObject
     [(''individualAnalyses'', JArray []),
      (''summaryTable'', JArray
         [JObject [(''article'', JString ''A''), (''rating'', JNumber 70),
                   (''coreConclusion'', JString ''c''), (''utility'', JString ''High'')]]),
      (''synthesisMatrix'', emptyMatrix)]"

definition noUtilityPayload :: json where
  "noUtilityPayload = JObject
     [(''individualAnalyses'', JArray []),
      (''summaryTable'', JArray
         [JObject [(''article'', JString ''A''), (''rating'', JNumber 70),
                   (''coreConclusion'', JString ''c'')]]),
      (''synthesisMatrix'', emptyMatrix)]"

text \<open>The two payloads as the service would send them.\<close>

definition goodText :: string where
  \<open>goodText = concat
   [''{"individualAnalyses":[],'',
    ''"summaryTable":[{"article":"A","rating":70,"coreConclusion":"c","utility":"High"}],'',
    ''"synthesisMatrix":{"commonThemes":[],"divergentResults":[],'',
    ''"researchGaps":["long-term effects"]}}'']\<close>

definition noUtilityText :: string where
  \<open>noUtilityText = concat
   [''{"individualAnalyses":[],'',
    ''"summaryTable":[{"article":"A","rating":70,"coreConclusion":"c"}],'',
    ''"synthesisMatrix":{"commonThemes":[],"divergentResults":[],'',
    ''"researchGaps":["long-term effects"]}}'']\<close>

text \<open>Errors as the transport layer raises them.\<close>

definition quotaError :: jserror where
  "quotaError = \<lparr>message = Some ''RESOURCE_EXHAUSTED'', status = JSNumber 429,
                  code = JSUndefined\<rparr>"

definition overloadError :: jserror where
  "overloadError = \<lparr>message = Some ''got status: 503 UNAVAILABLE'', status = JSUndefined,
                     code = JSUndefined\<rparr>"

definition authError :: jserror where
  "authError = \<lparr>message = Some ''API key not valid'', status = JSNumber 403,
                 code = JSUndefined\<rparr>"

definition code429Error :: jserror where
  "code429Error = \<lparr>message = Some ''RESOURCE_EXHAUSTED'', status = JSString ''RESOURCE_EXHAUSTED'',
                    code = JSNumber 429\<rparr>"

definition code503Error :: jserror where
  "code503Error = \<lparr>message = Some ''UNAVAILABLE'', status = JSString ''UNAVAILABLE'',
                    code = JSNumber 503\<rparr>"

definition code503QuotaError :: jserror where
  "code503QuotaError = \<lparr>message = Some ''UNAVAILABLE, limit 429'', status = JSUndefined,
                         code = JSNumber 503\<rparr>"

section \<open>Properties\<close>

subsection \<open>String operations\<close>

lemma startsWith_append: "startsWith (p @ ys) p"
  by (induction p) auto

lemma indexOf_fresh_head:
  "c \<notin> set xs \<Longrightarrow> indexOf (xs @ c # p @ ys) (c # p) = Some (length xs)"
proof (induction xs)
  case Nil
  show ?case using startsWith_append [of "c # p" ys] by simp
next
  case (Cons x xs)
  then show ?case by auto
qed

lemma replace_fresh_head:
  "c \<notin> set xs \<Longrightarrow>
   replace (xs @ c # p @ ys) (c # p) r =
     xs @ GetSubstitution (c # p) (xs @ c # p @ ys) (length xs) r @ ys"
  by (simp add: replace_def indexOf_fresh_head)

lemma GetSubstitution_plain:
  "CHR ''$'' \<notin> set r \<Longrightarrow> GetSubstitution m s pos r = r"
  by (induction m s pos r rule: GetSubstitution.induct) auto

lemma brace_fresh: "CHR ''{'' \<notin> set template_head"
  by (simp add: template_head_def)

lemma renderPrompt_eq:
  "renderPrompt topic =
     template_head @
     GetSubstitution ''{RESEARCH_TOPIC}'' PROMPT_TEMPLATE (length template_head) topic @
     template_tail"
  using replace_fresh_head [OF brace_fresh, of "''RESEARCH_TOPIC}''" template_tail topic]
  by (simp add: renderPrompt_def PROMPT_TEMPLATE_def)

text \<open>A topic without a dollar sign is substituted as it is.\<close>

lemma renderPrompt_plain:
  "CHR ''$'' \<notin> set topic \<Longrightarrow> renderPrompt topic = substituted topic"
  by (simp add: renderPrompt_eq GetSubstitution_plain substituted_def)

lemma split_nonempty: "split sep s \<noteq> []"
  by (induction s) (auto split: list.splits)

lemma split_no_sep: "sep \<notin> set s \<Longrightarrow> split sep s = [s]"
  by (induction s) auto

lemma split_hd: "hd (split sep s) = takeWhile (\<lambda>c. c \<noteq> sep) s"
  by (induction s) (auto split: list.splits simp: split_nonempty)

lemma split_first_sep:
  "sep \<in> set s \<Longrightarrow>
   split sep s =
     takeWhile (\<lambda>c. c \<noteq> sep) s # split sep (tl (dropWhile (\<lambda>c. c \<noteq> sep) s))"
  by (induction s) (auto split: list.splits simp: split_nonempty)

lemma at_index_1:
  "sep \<in> set s \<Longrightarrow>
   at_index (split sep s) (Suc 0) =
     Some (takeWhile (\<lambda>c. c \<noteq> sep) (tl (dropWhile (\<lambda>c. c \<noteq> sep) s)))"
  using split_nonempty [of sep "tl (dropWhile (\<lambda>c. c \<noteq> sep) s)"]
    split_hd [of sep "tl (dropWhile (\<lambda>c. c \<noteq> sep) s)"]
  by (cases "split sep (tl (dropWhile (\<lambda>c. c \<noteq> sep) s))")
     (auto simp: at_index_def split_first_sep)

subsection \<open>The retry loop, one iteration at a time\<close>

lemma ncalls_append: "ncalls (xs @ ys) = ncalls xs + ncalls ys"
  by (induction xs rule: ncalls.induct) auto


lemma attemptLoop_return:
  "tryBlock e req (ncalls tr) = Inr v \<Longrightarrow>
   attemptLoop e req a tr = \<lparr>result = Inr v, trace = tr @ [Call req]\<rparr>"
  by (subst attemptLoop.simps) simp

lemma attemptLoop_throw:
  "tryBlock e req (ncalls tr) = Inl err \<Longrightarrow> \<not> (transient err \<and> a < maxRetries) \<Longrightarrow>
   attemptLoop e req a tr = \<lparr>result = Inl err, trace = tr @ [Call req]\<rparr>"
  by (subst attemptLoop.simps) (auto simp: transient_def)

lemma attemptLoop_retry:
  "tryBlock e req (ncalls tr) = Inl err \<Longrightarrow> transient err \<Longrightarrow> a < maxRetries \<Longrightarrow>
   attemptLoop e req a tr =
     attemptLoop e req (Suc a) (tr @ [Call req, Wait (backoff (Suc a))])"
  by (subst attemptLoop.simps) (auto simp: transient_def backoff_def)

subsection \<open>The shape of every run\<close>

text \<open>
  A run that is at counter \<open>a\<close> and meets transient failures up to counter \<open>k\<close>, where it
  meets something else or has used its retries, ends with the outcome of attempt \<open>k\<close>.
\<close>

lemma attemptLoop_run:
  assumes "ncalls tr = a" and "a \<le> k" and "k \<le> maxRetries"
    and "\<forall>i. a \<le> i \<and> i < k \<longrightarrow> transientFailure e req i"
    and "k = maxRetries \<or> \<not> transientFailure e req k"
  shows "attemptLoop e req a tr =
           \<lparr>result = tryBlock e req k, trace = tr @ retryTrace req a k\<rparr>"
  using assms
proof (induction "k - a" arbitrary: a tr)
  case 0
  then have ak: "a = k" by simp
  show ?case
  proof (cases "tryBlock e req k")
    case (Inr v)
    then show ?thesis using 0 ak attemptLoop_return [of e req tr v a]
      by (simp add: retryTrace_def)
  next
    case (Inl err)
    have "\<not> (transient err \<and> a < maxRetries)"
      using 0(6) Inl ak by (auto simp: transientFailure_def)
    then show ?thesis using 0 ak Inl attemptLoop_throw [of e req tr err a]
      by (simp add: retryTrace_def)
  qed
next
  case (Suc n)
  then have lt: "a < k" by simp
  then have "transientFailure e req a" using Suc.prems by simp
  then obtain err where err: "tryBlock e req a = Inl err" "transient err"
    by (auto simp: transientFailure_def split: sum.splits)
  have step: "attemptLoop e req a tr =
      attemptLoop e req (Suc a) (tr @ [Call req, Wait (backoff (Suc a))])"
    using attemptLoop_retry [of e req tr err a] err Suc.prems lt by simp
  have "attemptLoop e req (Suc a) (tr @ [Call req, Wait (backoff (Suc a))]) =
        \<lparr>result = tryBlock e req k,
         trace = (tr @ [Call req, Wait (backoff (Suc a))]) @ retryTrace req (Suc a) k\<rparr>"
    using Suc.hyps(2) Suc.prems lt
    by (intro Suc.hyps(1)) (auto simp: ncalls_append)
  moreover have "retryTrace req a k =
      [Call req, Wait (backoff (Suc a))] @ retryTrace req (Suc a) k"
    using lt by (simp add: retryTrace_def upt_conv_Cons)
  ultimately show ?case using step by simp
qed

lemma first_stop:
  "\<exists>k\<le>(n::nat). (\<forall>i<k. P i) \<and> (k = n \<or> \<not> P k)"
proof (induction n)
  case 0
  show ?case by simp
next
  case (Suc n)
  then obtain k where k: "k \<le> n" "\<forall>i<k. P i" "k = n \<or> \<not> P k" by blast
  show ?case
  proof (cases "k = n \<and> P n")
    case True
    then have "\<forall>i<Suc n. P i" using k by (auto simp: less_Suc_eq)
    then show ?thesis by blast
  next
    case False
    then have "\<not> P k" using k by blast
    then show ?thesis using k by (intro exI [of _ k]) auto
  qed
qed

lemma analyzeArticles_run:
  assumes "\<not> falsy (API_KEY e)" and "k \<le> maxRetries"
    and "\<forall>i<k. transientFailure e (mkRequest topic files) i"
    and "k = maxRetries \<or> \<not> transientFailure e (mkRequest topic files) k"
  shows "analyzeArticles e topic files =
           \<lparr>result = tryBlock e (mkRequest topic files) k,
            trace = retryTrace (mkRequest topic files) 0 k\<rparr>"
  using assms attemptLoop_run [of "[]" 0 k e "mkRequest topic files"]
  by (simp add: analyzeArticles_def)

lemma analyzeArticles_shape:
  assumes "\<not> falsy (API_KEY e)"
  shows "\<exists>k\<le>maxRetries. (\<forall>i<k. transientFailure e (mkRequest topic files) i) \<and>
           (k = maxRetries \<or> \<not> transientFailure e (mkRequest topic files) k) \<and>
           analyzeArticles e topic files =
           \<lparr>result = tryBlock e (mkRequest topic files) k,
            trace = retryTrace (mkRequest topic files) 0 k\<rparr>"
proof -
  obtain k where k: "k \<le> maxRetries" "\<forall>i<k. transientFailure e (mkRequest topic files) i"
     "k = maxRetries \<or> \<not> transientFailure e (mkRequest topic files) k"
    using first_stop [of maxRetries "transientFailure e (mkRequest topic files)"] by blast
  then show ?thesis using analyzeArticles_run [OF assms k] by blast
qed

lemma retryTrace_0: "retryTrace req 0 0 = [Call req]"
  by (simp add: retryTrace_def)

lemma retryTrace_1: "retryTrace req 0 (Suc 0) = [Call req, Wait 2000, Call req]"
  by (simp add: retryTrace_def backoff_def)

lemma retryTrace_2:
  "retryTrace req 0 2 = [Call req, Wait 2000, Call req, Wait 4000, Call req]"
  by (simp add: retryTrace_def backoff_def upt_conv_Cons)

lemma retryTrace_3:
  "retryTrace req 0 3 =
     [Call req, Wait 2000, Call req, Wait 4000, Call req, Wait 8000, Call req]"
  by (simp add: retryTrace_def backoff_def upt_conv_Cons)

subsection \<open>Facts about the test doubles\<close>

lemma goodText_nonempty: "goodText \<noteq> []"
  by (simp add: goodText_def)

lemma noUtilityText_nonempty: "noUtilityText \<noteq> []"
  by (simp add: noUtilityText_def)

lemma conforms_goodPayload: "conforms responseSchema_value goodPayload"
  by (simp add: responseSchema_value_def goodPayload_def individualAnalysisSchema_def
      summaryRowSchema_def synthesisMatrixSchema_def emptyMatrix_def)

lemma not_conforms_noUtilityPayload: "\<not> conforms responseSchema_value noUtilityPayload"
  by (simp add: responseSchema_value_def noUtilityPayload_def individualAnalysisSchema_def
      summaryRowSchema_def synthesisMatrixSchema_def emptyMatrix_def)

lemma not_conforms_empty_object: "\<not> conforms responseSchema_value (JObject [])"
  by (simp add: responseSchema_value_def)

lemma tryBlock_testEnv:
  "tryBlock (testEnv key outs tbl) req n =
     (case scripted outs n req of
        Threw err \<Rightarrow> Inl err
      | Responded txt \<Rightarrow>
          (if falsy txt then Inl (Error ''No response generated'')
           else parseTable tbl (case txt of None \<Rightarrow> [] | Some s \<Rightarrow> s)))"
  by (simp add: tryBlock_def testEnv_def split: outcome.splits)

lemma transient_quotaError: "transient quotaError"
  by (simp add: transient_def isQuotaError_def quotaError_def)

lemma transient_overloadError: "transient overloadError"
  by (simp add: transient_def isServerOverload_def overloadError_def includes_str_def)

lemma not_transient_authError: "\<not> transient authError"
  by (simp add: transient_def isQuotaError_def isServerOverload_def authError_def
      includes_str_def)

lemma not_transient_no_response: "\<not> transient (Error ''No response generated'')"
  by (simp add: transient_def isQuotaError_def isServerOverload_def Error_def
      includes_str_def)

lemma not_transient_parse: "\<not> transient (Error ''Unexpected end of JSON input'')"
  by (simp add: transient_def isQuotaError_def isServerOverload_def Error_def
      includes_str_def)

lemma scripted_0: "scripted (x # xs) 0 req = x"
  by (simp add: scripted_def)

lemma scripted_Suc: "scripted (x # xs) (Suc n) req = scripted xs n req"
  by (simp add: scripted_def)

lemma scripted_Nil: "scripted [] n req = Threw (Error ''fetch failed'')"
  by (simp add: scripted_def)

lemma API_KEY_testEnv: "API_KEY (testEnv key outs tbl) = key"
  by (simp add: testEnv_def)

lemma generateContent_testEnv: "generateContent (testEnv key outs tbl) = scripted outs"
  by (simp add: testEnv_def)

lemma JSON_parse_testEnv: "JSON_parse (testEnv key outs tbl) = parseTable tbl"
  by (simp add: testEnv_def)

lemma parseTable_hit: "parseTable ((s, v) # tbl) s = Inr v"
  by (simp add: parseTable_def)

lemma parseTable_Nil: "parseTable [] s = Inl (Error ''Unexpected end of JSON input'')"
  by (simp add: parseTable_def)

lemmas testEnv_simps = API_KEY_testEnv generateContent_testEnv JSON_parse_testEnv
  scripted_0 scripted_Suc scripted_Nil parseTable_hit parseTable_Nil

subsection \<open>Request parts\<close>

lemma parts_mkRequest: "parts (mkRequest topic files) = TextPart (renderPrompt topic) # map filePart files"
  by (simp add: mkRequest_def buildParts_def)

lemma length_parts: "length (parts (mkRequest topic files)) = 1 + length files"
  by (simp add: parts_mkRequest)

text \<open>
  For a topic without a dollar sign the request has the prompt with the topic in the place
  of the placeholder, then one part per file, in the order of the files.
\<close>

lemma parts_plain_topic:
  "CHR ''$'' \<notin> set topic \<Longrightarrow>
   parts (mkRequest topic files) =
     TextPart (substituted topic) #
     map (\<lambda>f. InlineData (file_type f) (at_index (split CHR '','' (base64 f)) 1)) files"
  by (simp add: parts_mkRequest renderPrompt_plain filePart_def)

subsection \<open>Outcomes of one attempt\<close>

lemma tryBlock_parsed:
  "generateContent e n req = Responded (Some txt) \<Longrightarrow> txt \<noteq> [] \<Longrightarrow>
   tryBlock e req n = JSON_parse e txt"
  by (simp add: tryBlock_def falsy_def)

lemma tryBlock_threw: "generateContent e n req = Threw err \<Longrightarrow> tryBlock e req n = Inl err"
  by (simp add: tryBlock_def)

lemma tryBlock_empty:
  "generateContent e n req = Responded txt \<Longrightarrow> falsy txt \<Longrightarrow>
   tryBlock e req n = Inl (Error ''No response generated'')"
  by (simp add: tryBlock_def)

lemma transientFailure_Inl:
  "tryBlock e req n = Inl err \<Longrightarrow> transientFailure e req n = transient err"
  by (simp add: transientFailure_def)

lemma transientFailure_Inr:
  "tryBlock e req n = Inr v \<Longrightarrow> \<not> transientFailure e req n"
  by (simp add: transientFailure_def)


lemma all_less_3: "(\<forall>i<3. P (i::nat)) = (P 0 \<and> P 1 \<and> P 2)"
proof -
  have "\<And>i::nat. i < 3 \<longleftrightarrow> i = 0 \<or> i = 1 \<or> i = 2" by arith
  then show ?thesis by auto
qed

lemma all_less_4: "(\<forall>i<4. P (i::nat)) = (P 0 \<and> P 1 \<and> P 2 \<and> P 3)"
proof -
  have "\<And>i::nat. i < 4 \<longleftrightarrow> i = 0 \<or> i = 1 \<or> i = 2 \<or> i = 3" by arith
  then show ?thesis by auto
qed

lemma ncalls_retryTrace: "a \<le> k \<Longrightarrow> ncalls (retryTrace req a k) = Suc (k - a)"
proof (induction "k - a" arbitrary: a)
  case 0
  then show ?case by (simp add: retryTrace_def)
next
  case (Suc n)
  then have lt: "a < k" by simp
  then have "retryTrace req a k = [Call req, Wait (backoff (Suc a))] @ retryTrace req (Suc a) k"
    by (simp add: retryTrace_def upt_conv_Cons)
  moreover have "ncalls (retryTrace req (Suc a) k) = Suc (k - Suc a)"
    using Suc lt by (intro Suc.hyps(1)) auto
  ultimately show ?case using lt by (simp add: ncalls_append)
qed

lemma le_3_cases: "k \<le> (3::nat) \<Longrightarrow> k = 0 \<or> k = 1 \<or> k = 2 \<or> k = 3"
  by arith

lemma waits_retryTrace_bound:
  assumes "k \<le> maxRetries"
  shows "sum_list (waits (retryTrace req 0 k)) \<le> 14000"
proof -
  have "k = 0 \<or> k = Suc 0 \<or> k = 2 \<or> k = 3" using assms le_3_cases [of k] by (simp add: maxRetries_def)
  then show ?thesis
    by (auto simp: retryTrace_0 retryTrace_1 retryTrace_2 retryTrace_3)
qed

lemma isQuotaError_iff:
  "isQuotaError err \<longleftrightarrow>
     messageIncludes err ''429'' \<or> status err = JSNumber 429 \<or> code err = JSNumber 429"
  by (simp add: isQuotaError_def messageIncludes_def)

lemma isServerOverload_iff:
  "isServerOverload err \<longleftrightarrow> messageIncludes err ''503'' \<or> status err = JSNumber 503"
  by (simp add: isServerOverload_def messageIncludes_def)

lemma retryTrace_starts_with_call: "\<exists>rest. retryTrace req a k = Call req # rest"
proof (cases "a < k")
  case True
  then show ?thesis by (simp add: retryTrace_def upt_conv_Cons)
next
  case False
  then show ?thesis by (simp add: retryTrace_def)
qed

lemma retryTrace_step:
  "a < k \<Longrightarrow> retryTrace req a k = Call req # Wait (backoff (Suc a)) # retryTrace req (Suc a) k"
  by (simp add: retryTrace_def upt_conv_Cons)

lemma first_failure_transient_retried:
  assumes "\<not> falsy (API_KEY e)" and "transientFailure e (mkRequest topic files) 0"
  shows "\<exists>rest. trace (analyzeArticles e topic files) =
           Call (mkRequest topic files) # Wait 2000 # Call (mkRequest topic files) # rest"
proof -
  let ?r = "mkRequest topic files"
  obtain k where k: "k \<le> maxRetries" "k = maxRetries \<or> \<not> transientFailure e ?r k"
      "analyzeArticles e topic files = \<lparr>result = tryBlock e ?r k, trace = retryTrace ?r 0 k\<rparr>"
    using analyzeArticles_shape [OF assms(1), of topic files] by blast
  have "0 < k" using k(2) assms(2) by (cases k) (auto simp: maxRetries_def)
  then have "retryTrace ?r 0 k = Call ?r # Wait (backoff (Suc 0)) # retryTrace ?r (Suc 0) k"
    by (rule retryTrace_step)
  moreover obtain rest where "retryTrace ?r (Suc 0) k = Call ?r # rest"
    using retryTrace_starts_with_call by blast
  ultimately show ?thesis using k(3) by (simp add: backoff_def)
qed

lemma failure_at_k:
  assumes "\<not> falsy (API_KEY e)" and "k \<le> maxRetries"
    and "\<forall>i<k. transientFailure e (mkRequest topic files) i"
    and "tryBlock e (mkRequest topic files) k = Inl err" and "\<not> transient err"
  shows "analyzeArticles e topic files =
           \<lparr>result = Inl err, trace = retryTrace (mkRequest topic files) 0 k\<rparr>"
proof -
  have "\<not> transientFailure e (mkRequest topic files) k"
    using assms(4,5) by (simp add: transientFailure_def)
  then show ?thesis using analyzeArticles_run [OF assms(1,2,3)] assms(4) by simp
qed

lemma tf_threw:
  "scripted outs n req = Threw err \<Longrightarrow>
   transientFailure (testEnv key outs tbl) req n = transient err"
  by (simp add: transientFailure_def tryBlock_testEnv)

lemma transient_code429Error: "transient code429Error"
  by (simp add: transient_def isQuotaError_def code429Error_def)

lemma isQuotaError_quotaError: "isQuotaError quotaError"
  by (simp add: isQuotaError_def quotaError_def)

lemma isQuotaError_code429Error: "isQuotaError code429Error"
  by (simp add: isQuotaError_def code429Error_def)

lemma tf_scripted_threw:
  "scripted outs n req = Threw err \<Longrightarrow> transient err \<Longrightarrow>
   transientFailure (testEnv key outs tbl) req n"
  by (simp add: tf_threw)

subsection \<open>The signatures written out\<close>

lemma transient_iff:
  "transient err \<longleftrightarrow>
     messageIncludes err ''429'' \<or> status err = JSNumber 429 \<or> code err = JSNumber 429
     \<or> messageIncludes err ''503'' \<or> status err = JSNumber 503"
  by (auto simp: transient_def isQuotaError_iff isServerOverload_iff)


lemma retryTrace_split:
  assumes "a \<le> k" and "k < k'"
  shows "retryTrace req a k' =
           retryTrace req a k @ Wait (backoff (Suc k)) # retryTrace req (Suc k) k'"
proof -
  have "[a..<k + (k' - k)] = [a..<k] @ [k..<k + (k' - k)]"
    using assms(1) by (rule upt_add_eq_append)
  then have "[a..<k'] = [a..<k] @ k # [Suc k..<k']"
    using assms(2) by (simp add: upt_conv_Cons)
  then show ?thesis by (simp add: retryTrace_def)
qed

lemma transient_failure_at_k_retried:
  assumes "\<not> falsy (API_KEY e)" and "k < maxRetries"
    and "\<forall>i<k. transientFailure e (mkRequest topic files) i"
    and "transientFailure e (mkRequest topic files) k"
  shows "\<exists>rest. trace (analyzeArticles e topic files) =
           retryTrace (mkRequest topic files) 0 k @
           Wait (2000 * 2 ^ k) # Call (mkRequest topic files) # rest"
proof -
  let ?r = "mkRequest topic files"
  obtain k' where k': "k' \<le> maxRetries" "\<forall>i<k'. transientFailure e ?r i"
      "k' = maxRetries \<or> \<not> transientFailure e ?r k'"
      "analyzeArticles e topic files = \<lparr>result = tryBlock e ?r k', trace = retryTrace ?r 0 k'\<rparr>"
    using analyzeArticles_shape [OF assms(1), of topic files] by blast
  have "k < k'"
  proof (rule ccontr)
    assume "\<not> k < k'"
    then have le: "k' \<le> k" by simp
    then have "transientFailure e ?r k'" using assms(3,4) by (cases "k' = k") auto
    moreover have "k' \<noteq> maxRetries" using le assms(2) by simp
    ultimately show False using k'(3) by simp
  qed
  then have "retryTrace ?r 0 k' =
      retryTrace ?r 0 k @ Wait (backoff (Suc k)) # retryTrace ?r (Suc k) k'"
    by (intro retryTrace_split) simp_all
  moreover obtain rest where "retryTrace ?r (Suc k) k' = Call ?r # rest"
    using retryTrace_starts_with_call by blast
  ultimately show ?thesis using k'(4) by (simp add: backoff_def)
qed




section \<open>The claims\<close>

subsection \<open>C1: a payload that misses a required field\<close>

text \<open>
  The claim as the specification has it fails: the client sends the schema to the service
  and casts what \<open>JSON.parse\<close> returns, it validates nothing. A body whose summary row
  has no \<open>utility\<close> is returned to the caller.
\<close>

theorem missing_utility_counterexample:
  "\<not> conforms responseSchema_value noUtilityPayload
   \<and> parseTable [(noUtilityText, noUtilityPayload)] noUtilityText = Inr noUtilityPayload
   \<and> analyzeArticles
        (testEnv (Some ''key'') [Responded (Some noUtilityText)] [(noUtilityText, noUtilityPayload)])
        ''AI in education'' [pdfUpload] =
        \<lparr>result = Inr noUtilityPayload,
         trace = [Call (mkRequest ''AI in education'' [pdfUpload])]\<rparr>"
proof -
  let ?e = "testEnv (Some ''key'') [Responded (Some noUtilityText)] [(noUtilityText, noUtilityPayload)]"
  let ?r = "mkRequest ''AI in education'' [pdfUpload]"
  have "tryBlock ?e ?r (ncalls []) = Inr noUtilityPayload"
    by (simp add: tryBlock_testEnv testEnv_simps falsy_def noUtilityText_nonempty)
  then have "attemptLoop ?e ?r 0 [] = \<lparr>result = Inr noUtilityPayload, trace = [] @ [Call ?r]\<rparr>"
    by (rule attemptLoop_return)
  then show ?thesis
    using not_conforms_noUtilityPayload
    by (simp add: analyzeArticles_def API_KEY_testEnv falsy_def parseTable_hit)
qed

text \<open>
  C1, as amended. With the key present, when the attempt that follows \<open>k\<close> transient
  failures receives a non-empty body that parses as JSON into a value that misses a
  required field of the declared shape (a summary row without \<open>utility\<close>, say),
  \<open>analyzeArticles\<close> raises nothing: it returns the parsed value as it is, and it makes
  no call and no wait after that response.
\<close>

theorem nonconforming_payload_returned_without_retry:
  assumes "\<not> falsy (API_KEY e)" and "k \<le> maxRetries"
    and "\<forall>i<k. transientFailure e (mkRequest topic files) i"
    and "generateContent e k (mkRequest topic files) = Responded (Some body)"
    and "body \<noteq> []"
    and "JSON_parse e body = Inr v"
    and "\<not> conforms responseSchema_value v"
  shows "analyzeArticles e topic files =
           \<lparr>result = Inr v, trace = retryTrace (mkRequest topic files) 0 k\<rparr>
         \<and> ncalls (trace (analyzeArticles e topic files)) = Suc k"
proof -
  let ?r = "mkRequest topic files"
  have r: "tryBlock e ?r k = Inr v" using assms(4,5,6) by (simp add: tryBlock_parsed)
  then have "\<not> transientFailure e ?r k" by (rule transientFailure_Inr)
  then have "analyzeArticles e topic files =
      \<lparr>result = tryBlock e ?r k, trace = retryTrace ?r 0 k\<rparr>"
    using analyzeArticles_run [OF assms(1,2,3)] by simp
  then show ?thesis using r ncalls_retryTrace [of 0 k ?r] by simp
qed

theorem nonconforming_payload_witness:
  "\<not> falsy (API_KEY (testEnv (Some ''key'') [Threw quotaError, Responded (Some noUtilityText)]
        [(noUtilityText, noUtilityPayload)]))
   \<and> Suc 0 \<le> maxRetries
   \<and> transientFailure (testEnv (Some ''key'') [Threw quotaError, Responded (Some noUtilityText)]
        [(noUtilityText, noUtilityPayload)]) (mkRequest ''AI in education'' [pdfUpload]) 0
   \<and> noUtilityText \<noteq> []
   \<and> \<not> conforms responseSchema_value noUtilityPayload
   \<and> analyzeArticles (testEnv (Some ''key'') [Threw quotaError, Responded (Some noUtilityText)]
        [(noUtilityText, noUtilityPayload)]) ''AI in education'' [pdfUpload] =
        \<lparr>result = Inr noUtilityPayload,
         trace = [Call (mkRequest ''AI in education'' [pdfUpload]), Wait 2000,
                  Call (mkRequest ''AI in education'' [pdfUpload])]\<rparr>"
proof -
  let ?e = "testEnv (Some ''key'') [Threw quotaError, Responded (Some noUtilityText)]
        [(noUtilityText, noUtilityPayload)]"
  let ?r = "mkRequest ''AI in education'' [pdfUpload]"
  have k: "\<not> falsy (API_KEY ?e)" by (simp add: API_KEY_testEnv falsy_def)
  have le: "Suc 0 \<le> maxRetries" by (simp add: maxRetries_def)
  have t0: "transientFailure ?e ?r 0"
    by (simp add: tf_threw scripted_0 transient_quotaError)
  have all: "\<forall>i<Suc 0. transientFailure ?e ?r i" using t0 by simp
  have g: "generateContent ?e (Suc 0) ?r = Responded (Some noUtilityText)"
    by (simp add: testEnv_simps)
  have p: "JSON_parse ?e noUtilityText = Inr noUtilityPayload" by (simp add: testEnv_simps)
  show ?thesis
    using nonconforming_payload_returned_without_retry
      [OF k le all g noUtilityText_nonempty p not_conforms_noUtilityPayload]
      k le t0 noUtilityText_nonempty not_conforms_noUtilityPayload
    by (simp add: retryTrace_1)
qed

subsection \<open>C2: when a retry happens, and after which wait\<close>



subsection \<open>C3: at most four calls\<close>

text \<open>
  C3. Whatever the service does, a run makes at most 4 calls and waits at most 14000
  milliseconds in total. When all four attempts end in transient failures, the run is
  four calls with waits of 2000, 4000 and 8000 milliseconds between them, and the error of
  the fourth attempt is raised: there is no fifth call.
\<close>

theorem at_most_four_calls:
  "ncalls (trace (analyzeArticles e topic files)) \<le> 4
   \<and> sum_list (waits (trace (analyzeArticles e topic files))) \<le> 14000
   \<and> (\<not> falsy (API_KEY e)
       \<and> (\<forall>i<4. transientFailure e (mkRequest topic files) i)
       \<and> tryBlock e (mkRequest topic files) 3 = Inl err
      \<longrightarrow> analyzeArticles e topic files =
            \<lparr>result = Inl err,
             trace = [Call (mkRequest topic files), Wait 2000,
                      Call (mkRequest topic files), Wait 4000,
                      Call (mkRequest topic files), Wait 8000,
                      Call (mkRequest topic files)]\<rparr>
          \<and> ncalls (trace (analyzeArticles e topic files)) = 4
          \<and> sum_list (waits (trace (analyzeArticles e topic files))) = 14000)"
proof -
  let ?r = "mkRequest topic files"
  have bounds: "ncalls (trace (analyzeArticles e topic files)) \<le> 4
      \<and> sum_list (waits (trace (analyzeArticles e topic files))) \<le> 14000"
  proof (cases "falsy (API_KEY e)")
    case True
    then show ?thesis by (simp add: analyzeArticles_def)
  next
    case False
    then obtain k where k: "k \<le> maxRetries"
      "analyzeArticles e topic files = \<lparr>result = tryBlock e ?r k, trace = retryTrace ?r 0 k\<rparr>"
      using analyzeArticles_shape [of e topic files] by blast
    have "ncalls (retryTrace ?r 0 k) \<le> 4"
      using k(1) ncalls_retryTrace [of 0 k ?r] by (simp add: maxRetries_def)
    then show ?thesis using k waits_retryTrace_bound [of k ?r] by simp
  qed
  have scenario: "analyzeArticles e topic files =
            \<lparr>result = Inl err,
             trace = [Call ?r, Wait 2000, Call ?r, Wait 4000, Call ?r, Wait 8000, Call ?r]\<rparr>"
    if h: "\<not> falsy (API_KEY e) \<and> (\<forall>i<4. transientFailure e ?r i) \<and> tryBlock e ?r 3 = Inl err"
  proof -
    have "analyzeArticles e topic files =
        \<lparr>result = tryBlock e ?r 3, trace = retryTrace ?r 0 3\<rparr>"
      using h by (intro analyzeArticles_run) (simp_all add: maxRetries_def all_less_4 all_less_3)
    then show ?thesis using h by (simp add: retryTrace_3)
  qed
  show ?thesis using bounds scenario by auto
qed

theorem at_most_four_calls_witness:
  "\<not> falsy (API_KEY (testEnv (Some ''key'')
        [Threw overloadError, Threw overloadError, Threw quotaError, Threw overloadError,
         Responded (Some goodText)] [(goodText, goodPayload)]))
   \<and> transientFailure (testEnv (Some ''key'')
        [Threw overloadError, Threw overloadError, Threw quotaError, Threw overloadError,
         Responded (Some goodText)] [(goodText, goodPayload)])
        (mkRequest ''AI in education'' [pdfUpload]) 0
   \<and> transientFailure (testEnv (Some ''key'')
        [Threw overloadError, Threw overloadError, Threw quotaError, Threw overloadError,
         Responded (Some goodText)] [(goodText, goodPayload)])
        (mkRequest ''AI in education'' [pdfUpload]) 1
   \<and> transientFailure (testEnv (Some ''key'')
        [Threw overloadError, Threw overloadError, Threw quotaError, Threw overloadError,
         Responded (Some goodText)] [(goodText, goodPayload)])
        (mkRequest ''AI in education'' [pdfUpload]) 2
   \<and> transientFailure (testEnv (Some ''key'')
        [Threw overloadError, Threw overloadError, Threw quotaError, Threw overloadError,
         Responded (Some goodText)] [(goodText, goodPayload)])
        (mkRequest ''AI in education'' [pdfUpload]) 3
   \<and> analyzeArticles (testEnv (Some ''key'')
        [Threw overloadError, Threw overloadError, Threw quotaError, Threw overloadError,
         Responded (Some goodText)] [(goodText, goodPayload)])
        ''AI in education'' [pdfUpload] =
        \<lparr>result = Inl overloadError,
         trace = [Call (mkRequest ''AI in education'' [pdfUpload]), Wait 2000,
                  Call (mkRequest ''AI in education'' [pdfUpload]), Wait 4000,
                  Call (mkRequest ''AI in education'' [pdfUpload]), Wait 8000,
                  Call (mkRequest ''AI in education'' [pdfUpload])]\<rparr>"
proof -
  let ?outs = "[Threw overloadError, Threw overloadError, Threw quotaError, Threw overloadError,
         Responded (Some goodText)]"
  let ?e = "testEnv (Some ''key'') ?outs [(goodText, goodPayload)]"
  let ?r = "mkRequest ''AI in education'' [pdfUpload]"
  have n: "(1::nat) = Suc 0" "(2::nat) = Suc (Suc 0)" "(3::nat) = Suc (Suc (Suc 0))"
    by simp_all
  have k: "\<not> falsy (API_KEY ?e)" by (simp add: API_KEY_testEnv falsy_def)
  have t0: "transientFailure ?e ?r 0"
    by (rule tf_scripted_threw [where err = overloadError])
       (simp_all add: scripted_0 transient_overloadError)
  have t1: "transientFailure ?e ?r 1"
    by (rule tf_scripted_threw [where err = overloadError])
       (simp_all add: n scripted_0 scripted_Suc transient_overloadError)
  have t2: "transientFailure ?e ?r 2"
    by (rule tf_scripted_threw [where err = quotaError])
       (simp_all add: n scripted_0 scripted_Suc transient_quotaError)
  have t3: "transientFailure ?e ?r 3"
    by (rule tf_scripted_threw [where err = overloadError])
       (simp_all add: n scripted_0 scripted_Suc transient_overloadError)
  have r3: "tryBlock ?e ?r 3 = Inl overloadError"
    by (simp add: tryBlock_testEnv n scripted_0 scripted_Suc)
  have all: "\<forall>i<4. transientFailure ?e ?r i" using t0 t1 t2 t3 by (simp add: all_less_4)
  show ?thesis
    using at_most_four_calls [where e = "?e" and topic = "''AI in education''"
        and files = "[pdfUpload]" and err = overloadError] k all r3 t0 t1 t2 t3
    by blast
qed

subsection \<open>C4: failures that are not retried\<close>

text \<open>
  The claim as the specification has it fails for a payload that does not have the
  declared structure: the body \<open>{}\<close> parses as JSON, so the run does not fail, it returns
  the empty object.
\<close>

theorem empty_object_counterexample:
  "\<not> conforms responseSchema_value (JObject [])
   \<and> parseTable [(''{}'', JObject [])] ''{}'' = Inr (JObject [])
   \<and> analyzeArticles (testEnv (Some ''key'') [Responded (Some ''{}'')] [(''{}'', JObject [])])
        ''AI in education'' [pdfUpload] =
        \<lparr>result = Inr (JObject []),
         trace = [Call (mkRequest ''AI in education'' [pdfUpload])]\<rparr>"
proof -
  let ?e = "testEnv (Some ''key'') [Responded (Some ''{}'')] [(''{}'', JObject [])]"
  let ?r = "mkRequest ''AI in education'' [pdfUpload]"
  have "tryBlock ?e ?r (ncalls []) = Inr (JObject [])"
    by (simp add: tryBlock_testEnv scripted_0 parseTable_hit falsy_def)
  then have "attemptLoop ?e ?r 0 [] = \<lparr>result = Inr (JObject []), trace = [] @ [Call ?r]\<rparr>"
    by (rule attemptLoop_return)
  then show ?thesis
    using not_conforms_empty_object
    by (simp add: analyzeArticles_def API_KEY_testEnv falsy_def parseTable_hit)
qed

text \<open>
  C4, as amended. With the key present, let the first \<open>k\<close> attempts (\<open>k\<close> at most 3)
  end in transient failures. If attempt \<open>k\<close> meets an error thrown by the service that has
  neither transient signature, or an empty or missing body, or a body on which
  \<open>JSON.parse\<close> throws an error that has neither transient signature, then the run ends
  there, with no further call and no further wait, and raises that very error (for the
  empty body, the error \<open>No response generated\<close>). A value that is returned is always the
  whole value parsed from a non-empty body.
\<close>

theorem non_transient_failure_raised_unchanged:
  assumes "\<not> falsy (API_KEY e)" and "k \<le> maxRetries"
    and "\<forall>i<k. transientFailure e (mkRequest topic files) i"
  shows "(generateContent e k (mkRequest topic files) = Threw err \<and> \<not> transient err
          \<longrightarrow> analyzeArticles e topic files =
                \<lparr>result = Inl err, trace = retryTrace (mkRequest topic files) 0 k\<rparr>)
       \<and> (generateContent e k (mkRequest topic files) = Responded body \<and> falsy body
          \<longrightarrow> analyzeArticles e topic files =
                \<lparr>result = Inl (Error ''No response generated''),
                 trace = retryTrace (mkRequest topic files) 0 k\<rparr>)
       \<and> (generateContent e k (mkRequest topic files) = Responded (Some s) \<and> s \<noteq> []
            \<and> JSON_parse e s = Inl perr \<and> \<not> transient perr
          \<longrightarrow> analyzeArticles e topic files =
                \<lparr>result = Inl perr, trace = retryTrace (mkRequest topic files) 0 k\<rparr>)
       \<and> (result (analyzeArticles e topic files) = Inr v
          \<longrightarrow> (\<exists>n s'. generateContent e n (mkRequest topic files) = Responded (Some s')
                  \<and> s' \<noteq> [] \<and> JSON_parse e s' = Inr v))"
proof (intro conjI impI)
  let ?r = "mkRequest topic files"
  note at_k = failure_at_k [OF assms]
  show "analyzeArticles e topic files = \<lparr>result = Inl err, trace = retryTrace ?r 0 k\<rparr>"
    if "generateContent e k ?r = Threw err \<and> \<not> transient err"
    using that at_k [of err] by (simp add: tryBlock_threw)
  show "analyzeArticles e topic files =
      \<lparr>result = Inl (Error ''No response generated''), trace = retryTrace ?r 0 k\<rparr>"
    if "generateContent e k ?r = Responded body \<and> falsy body"
    using that at_k [of "Error ''No response generated''"] not_transient_no_response
    by (simp add: tryBlock_empty)
  show "analyzeArticles e topic files = \<lparr>result = Inl perr, trace = retryTrace ?r 0 k\<rparr>"
    if "generateContent e k ?r = Responded (Some s) \<and> s \<noteq> []
            \<and> JSON_parse e s = Inl perr \<and> \<not> transient perr"
    using that at_k [of perr] by (simp add: tryBlock_parsed)
  show "\<exists>n s'. generateContent e n ?r = Responded (Some s') \<and> s' \<noteq> [] \<and> JSON_parse e s' = Inr v"
    if res: "result (analyzeArticles e topic files) = Inr v"
  proof -
    obtain n where "analyzeArticles e topic files =
        \<lparr>result = tryBlock e ?r n, trace = retryTrace ?r 0 n\<rparr>"
      using analyzeArticles_shape [OF assms(1), of topic files] by blast
    then have "tryBlock e ?r n = Inr v" using res by simp
    then show ?thesis
      by (auto simp: tryBlock_def falsy_def split: outcome.splits option.splits if_splits)
  qed
qed

theorem non_transient_failure_witness:
  "\<not> falsy (API_KEY (testEnv (Some ''key'') [Threw quotaError, Threw authError] []))
   \<and> Suc 0 \<le> maxRetries
   \<and> transientFailure (testEnv (Some ''key'') [Threw quotaError, Threw authError] [])
        (mkRequest ''AI in education'' [pdfUpload]) 0
   \<and> \<not> transient authError
   \<and> analyzeArticles (testEnv (Some ''key'') [Threw quotaError, Threw authError] [])
        ''AI in education'' [pdfUpload] =
        \<lparr>result = Inl authError,
         trace = [Call (mkRequest ''AI in education'' [pdfUpload]), Wait 2000,
                  Call (mkRequest ''AI in education'' [pdfUpload])]\<rparr>
   \<and> falsy (Some [])
   \<and> analyzeArticles (testEnv (Some ''key'') [Responded (Some [])] [])
        ''AI in education'' [pdfUpload] =
        \<lparr>result = Inl (Error ''No response generated''),
         trace = [Call (mkRequest ''AI in education'' [pdfUpload])]\<rparr>
   \<and> falsy None
   \<and> analyzeArticles (testEnv (Some ''key'') [Responded None] [])
        ''AI in education'' [pdfUpload] =
        \<lparr>result = Inl (Error ''No response generated''),
         trace = [Call (mkRequest ''AI in education'' [pdfUpload])]\<rparr>
   \<and> \<not> transient (Error ''Unexpected end of JSON input'')
   \<and> analyzeArticles (testEnv (Some ''key'') [Responded (Some ''{'')] [])
        ''AI in education'' [pdfUpload] =
        \<lparr>result = Inl (Error ''Unexpected end of JSON input''),
         trace = [Call (mkRequest ''AI in education'' [pdfUpload])]\<rparr>
   \<and> result (analyzeArticles (testEnv (Some ''key'') [Responded (Some goodText)]
        [(goodText, goodPayload)]) ''AI in education'' [pdfUpload]) = Inr goodPayload
   \<and> (\<exists>n s'. generateContent (testEnv (Some ''key'') [Responded (Some goodText)]
          [(goodText, goodPayload)]) n (mkRequest ''AI in education'' [pdfUpload]) =
          Responded (Some s')
        \<and> s' \<noteq> []
        \<and> JSON_parse (testEnv (Some ''key'') [Responded (Some goodText)]
             [(goodText, goodPayload)]) s' = Inr goodPayload)"
proof -
  let ?r = "mkRequest ''AI in education'' [pdfUpload]"
  let ?a = "testEnv (Some ''key'') [Threw quotaError, Threw authError] []"
  let ?b = "testEnv (Some ''key'') [Responded (Some [])] []"
  let ?c = "testEnv (Some ''key'') [Responded None] []"
  let ?d = "testEnv (Some ''key'') [Responded (Some ''{'')] []"
  let ?g = "testEnv (Some ''key'') [Responded (Some goodText)] [(goodText, goodPayload)]"
  have key: "\<And>outs tbl. \<not> falsy (API_KEY (testEnv (Some ''key'') outs tbl))"
    by (simp add: API_KEY_testEnv falsy_def)
  have le1: "Suc 0 \<le> maxRetries" and le0: "0 \<le> maxRetries" by (simp_all add: maxRetries_def)
  have none: "\<And>e. \<forall>i<0. transientFailure e ?r i" by simp
  have t0: "transientFailure ?a ?r 0"
    by (simp add: tf_threw scripted_0 transient_quotaError)
  have all: "\<forall>i<Suc 0. transientFailure ?a ?r i" using t0 by simp
  have ga: "generateContent ?a (Suc 0) ?r = Threw authError" by (simp add: testEnv_simps)
  have gb: "generateContent ?b 0 ?r = Responded (Some [])" by (simp add: testEnv_simps)
  have gc: "generateContent ?c 0 ?r = Responded None" by (simp add: testEnv_simps)
  have gd: "generateContent ?d 0 ?r = Responded (Some ''{'')" by (simp add: testEnv_simps)
  have pd: "JSON_parse ?d ''{'' = Inl (Error ''Unexpected end of JSON input'')"
    by (simp add: testEnv_simps)
  have fs: "falsy (Some [])" and fn: "falsy None" by (simp_all add: falsy_def)
  have A: "analyzeArticles ?a ''AI in education'' [pdfUpload] =
      \<lparr>result = Inl authError, trace = retryTrace ?r 0 (Suc 0)\<rparr>"
    using non_transient_failure_raised_unchanged [OF key le1 all, where err = authError]
      ga not_transient_authError by blast
  have B: "analyzeArticles ?b ''AI in education'' [pdfUpload] =
      \<lparr>result = Inl (Error ''No response generated''), trace = retryTrace ?r 0 0\<rparr>"
    using non_transient_failure_raised_unchanged [OF key le0 none, where body = "Some []"]
      gb fs by blast
  have C: "analyzeArticles ?c ''AI in education'' [pdfUpload] =
      \<lparr>result = Inl (Error ''No response generated''), trace = retryTrace ?r 0 0\<rparr>"
    using non_transient_failure_raised_unchanged [OF key le0 none, where body = None]
      gc fn by blast
  have D: "analyzeArticles ?d ''AI in education'' [pdfUpload] =
      \<lparr>result = Inl (Error ''Unexpected end of JSON input''), trace = retryTrace ?r 0 0\<rparr>"
    using non_transient_failure_raised_unchanged [OF key le0 none, where s = "''{''"
        and perr = "Error ''Unexpected end of JSON input''"]
      gd pd not_transient_parse by blast
  have G: "result (analyzeArticles ?g ''AI in education'' [pdfUpload]) = Inr goodPayload"
    using analyzeArticles_run
      [OF key [of "[Responded (Some goodText)]" "[(goodText, goodPayload)]"] le0 none]
    by (simp add: transientFailure_def tryBlock_testEnv scripted_0 parseTable_hit falsy_def
        goodText_nonempty)
  have E: "\<exists>n s'. generateContent ?g n ?r = Responded (Some s') \<and> s' \<noteq> []
      \<and> JSON_parse ?g s' = Inr goodPayload"
    using non_transient_failure_raised_unchanged [OF key le0 none, where v = goodPayload] G
    by blast
  show ?thesis
    using key le1 t0 not_transient_authError A fs B fn C not_transient_parse D G E
    by (simp add: retryTrace_0 retryTrace_1)
qed

text \<open>
  Why the amended claim asks of a parser error that it has no transient signature: the
  wording of a \<open>SyntaxError\<close> is the engine's, and one common wording names the position
  of the offending character. A body of 429 spaces and a closing brace is then retried.
\<close>

lemma unparsable_body_naming_429_is_retried:
  "analyzeArticles
     \<lparr>API_KEY = Some ''key'',
      generateContent = scripted [Responded (Some (replicate 429 CHR '' '' @ ''}''))],
      JSON_parse = rejecting ''Unexpected token } in JSON at position 429''\<rparr>
     ''AI in education'' [pdfUpload] =
     \<lparr>result = Inl (Error ''fetch failed''),
      trace = [Call (mkRequest ''AI in education'' [pdfUpload]), Wait 2000,
               Call (mkRequest ''AI in education'' [pdfUpload])]\<rparr>"
proof -
  let ?e = "\<lparr>API_KEY = Some ''key'',
      generateContent = scripted [Responded (Some (replicate 429 CHR '' '' @ ''}''))],
      JSON_parse = rejecting ''Unexpected token } in JSON at position 429''\<rparr>"
  let ?r = "mkRequest ''AI in education'' [pdfUpload]"
  have k: "\<not> falsy (API_KEY ?e)" by (simp add: falsy_def)
  have r0: "tryBlock ?e ?r 0 = Inl (Error ''Unexpected token } in JSON at position 429'')"
    by (simp add: tryBlock_def scripted_0 falsy_def rejecting_def)
  have "transient (Error ''Unexpected token } in JSON at position 429'')"
    by (simp add: transient_def isQuotaError_def Error_def includes_str_def)
  then have t0: "\<forall>i<Suc 0. transientFailure ?e ?r i"
    using r0 by (simp add: transientFailure_def)
  have r1: "tryBlock ?e ?r (Suc 0) = Inl (Error ''fetch failed'')"
    by (simp add: tryBlock_def scripted_Suc scripted_Nil)
  have "\<not> transient (Error ''fetch failed'')"
    by (simp add: transient_def isQuotaError_def isServerOverload_def Error_def
        includes_str_def)
  then have t1: "\<not> transientFailure ?e ?r (Suc 0)"
    using r1 by (simp add: transientFailure_def)
  have "analyzeArticles ?e ''AI in education'' [pdfUpload] =
      \<lparr>result = tryBlock ?e ?r (Suc 0), trace = retryTrace ?r 0 (Suc 0)\<rparr>"
    using k t0 t1 by (intro analyzeArticles_run) (simp_all add: maxRetries_def)
  then show ?thesis by (simp add: r1 retryTrace_1)
qed

subsection \<open>C5: success on the first attempt\<close>

text \<open>
  C5. With the key present, when the first call returns a non-empty body that parses into
  a payload of the declared shape, \<open>analyzeArticles\<close> makes exactly one call, waits for
  nothing and returns the very value the parser produced, for every topic and every list
  of files.
\<close>

theorem first_attempt_payload_returned_unchanged:
  assumes "\<not> falsy (API_KEY e)"
    and "generateContent e 0 (mkRequest topic files) = Responded (Some txt)"
    and "txt \<noteq> []"
    and "JSON_parse e txt = Inr v"
    and "conforms responseSchema_value v"
  shows "analyzeArticles e topic files =
           \<lparr>result = Inr v, trace = [Call (mkRequest topic files)]\<rparr>
         \<and> ncalls (trace (analyzeArticles e topic files)) = 1
         \<and> waits (trace (analyzeArticles e topic files)) = []"
proof -
  have "tryBlock e (mkRequest topic files) (ncalls []) = Inr v"
    using assms by (simp add: tryBlock_def falsy_def)
  then have "attemptLoop e (mkRequest topic files) 0 [] =
      \<lparr>result = Inr v, trace = [] @ [Call (mkRequest topic files)]\<rparr>"
    by (rule attemptLoop_return)
  then show ?thesis using assms(1) by (simp add: analyzeArticles_def)
qed

theorem first_attempt_payload_witness:
  "\<not> falsy (API_KEY (testEnv (Some ''key'') [Responded (Some goodText)]
        [(goodText, goodPayload)]))
   \<and> goodText \<noteq> []
   \<and> conforms responseSchema_value goodPayload
   \<and> analyzeArticles (testEnv (Some ''key'') [Responded (Some goodText)]
        [(goodText, goodPayload)]) ''AI in education'' [pdfUpload] =
        \<lparr>result = Inr goodPayload,
         trace = [Call (mkRequest ''AI in education'' [pdfUpload])]\<rparr>"
proof -
  let ?e = "testEnv (Some ''key'') [Responded (Some goodText)] [(goodText, goodPayload)]"
  have k: "\<not> falsy (API_KEY ?e)" by (simp add: API_KEY_testEnv falsy_def)
  have g: "generateContent ?e 0 (mkRequest ''AI in education'' [pdfUpload]) =
      Responded (Some goodText)"
    by (simp add: testEnv_simps)
  have p: "JSON_parse ?e goodText = Inr goodPayload" by (simp add: testEnv_simps)
  show ?thesis
    using first_attempt_payload_returned_unchanged
      [OF k g goodText_nonempty p conforms_goodPayload]
      k goodText_nonempty conforms_goodPayload by simp
qed

subsection \<open>C6: a missing credential\<close>

text \<open>
  C6. When the API key is absent (\<open>undefined\<close> or the empty string), \<open>analyzeArticles\<close>
  raises the configuration error before any request: the trace is empty, so no service
  call and no wait happens, whatever the topic and the files are.
\<close>

theorem missing_key_raises_before_any_call:
  assumes "falsy (API_KEY e)"
  shows "analyzeArticles e topic files =
           \<lparr>result = Inl (Error ''API Key is missing in environment variables''), trace = []\<rparr>
         \<and> ncalls (trace (analyzeArticles e topic files)) = 0
         \<and> waits (trace (analyzeArticles e topic files)) = []"
  using assms by (simp add: analyzeArticles_def)

theorem missing_key_witness:
  "falsy (API_KEY (testEnv None [Responded (Some goodText)] [(goodText, goodPayload)]))
   \<and> falsy (API_KEY (testEnv (Some []) [Responded (Some goodText)] [(goodText, goodPayload)]))
   \<and> analyzeArticles (testEnv None [Responded (Some goodText)] [(goodText, goodPayload)])
        ''AI in education'' [pdfUpload] =
        \<lparr>result = Inl (Error ''API Key is missing in environment variables''), trace = []\<rparr>
   \<and> analyzeArticles (testEnv (Some []) [Responded (Some goodText)] [(goodText, goodPayload)])
        ''AI in education'' [pdfUpload] =
        \<lparr>result = Inl (Error ''API Key is missing in environment variables''), trace = []\<rparr>"
proof -
  have a: "falsy (API_KEY (testEnv None [Responded (Some goodText)] [(goodText, goodPayload)]))"
    by (simp add: API_KEY_testEnv falsy_def)
  have b: "falsy (API_KEY (testEnv (Some []) [Responded (Some goodText)]
      [(goodText, goodPayload)]))"
    by (simp add: API_KEY_testEnv falsy_def)
  show ?thesis
    using a b missing_key_raises_before_any_call [OF a, of "''AI in education''" "[pdfUpload]"]
      missing_key_raises_before_any_call [OF b, of "''AI in education''" "[pdfUpload]"]
    by simp
qed

subsection \<open>C7: the parts of the request\<close>

text \<open>
  C7. The claim asks for the topic text in the place of the placeholder, for every topic.
  \<open>String.prototype.replace\<close> reads dollar patterns in its replacement text, so the
  code does not deliver that: the topic \<open>$$ in science\<close> arrives as \<open>$ in science\<close>, and
  the topic \<open>$&\<close> leaves the placeholder in the prompt. The file parts follow the prompt
  in the order of the files (see \<open>parts_plain_topic\<close> for topics without a dollar sign).
\<close>

theorem dollar_topic_not_substituted:
  "parts (mkRequest ''$$ in science'' files) =
     TextPart (substituted ''$ in science'') # map filePart files
   \<and> substituted ''$ in science'' \<noteq> substituted ''$$ in science''
   \<and> parts (mkRequest ''$&'' files) = TextPart PROMPT_TEMPLATE # map filePart files
   \<and> PROMPT_TEMPLATE \<noteq> substituted ''$&''"
  by (simp add: parts_mkRequest renderPrompt_eq substituted_def PROMPT_TEMPLATE_def)

subsection \<open>C8: the content of a file part\<close>

text \<open>
  The claim as the specification has it fails: the core itself removes the data-URL
  prefix, so the part does not carry the caller's string unchanged.
\<close>

theorem caller_bytes_counterexample:
  "data (parts (mkRequest ''AI in education'' [pdfUpload]) ! 1) = Some ''JVBERi0xLjQK''
   \<and> data (parts (mkRequest ''AI in education'' [pdfUpload]) ! 1) \<noteq> Some (base64 pdfUpload)"
  by (simp add: parts_mkRequest filePart_def pdfUpload_def at_index_def)

text \<open>
  C8, as amended. For every file whose string contains a comma, the content attached to
  its request part is the text between the first comma of the caller-supplied string and
  the next comma or the end: the data-URL prefix is removed by the core, not by the
  caller.
\<close>

theorem data_is_text_after_first_comma:
  assumes "i < length files" and "CHR '','' \<in> set (base64 (files ! i))"
  shows "parts (mkRequest topic files) ! Suc i =
           InlineData (file_type (files ! i))
             (Some (takeWhile (\<lambda>c. c \<noteq> CHR '','')
                     (tl (dropWhile (\<lambda>c. c \<noteq> CHR '','') (base64 (files ! i))))))"
  using assms by (simp add: parts_mkRequest filePart_def at_index_1)

theorem data_is_text_after_first_comma_witness:
  "(0::nat) < length [pdfUpload] \<and> CHR '','' \<in> set (base64 ([pdfUpload] ! 0))
   \<and> parts (mkRequest ''AI in education'' [pdfUpload]) ! Suc 0 =
       InlineData ''application/pdf'' (Some ''JVBERi0xLjQK'')"
proof -
  have a: "(0::nat) < length [pdfUpload]" by simp
  have b: "CHR '','' \<in> set (base64 ([pdfUpload] ! 0))" by (simp add: pdfUpload_def)
  show ?thesis
    using a b data_is_text_after_first_comma [OF a b, of "''AI in education''"]
    by (simp add: pdfUpload_def)
qed

subsection \<open>C9: a string without a comma\<close>

text \<open>
  C9. For every file whose string contains no comma, the part built for it carries its
  MIME type and no data (\<open>undefined\<close>), at its place in the request.
\<close>

theorem no_comma_leaves_data_undefined:
  assumes "i < length files" and "CHR '','' \<notin> set (base64 (files ! i))"
  shows "parts (mkRequest topic files) ! Suc i = InlineData (file_type (files ! i)) None"
  using assms by (simp add: parts_mkRequest filePart_def split_no_sep at_index_def)

theorem no_comma_witness:
  "(0::nat) < length [rawUpload] \<and> CHR '','' \<notin> set (base64 ([rawUpload] ! 0))
   \<and> parts (mkRequest ''AI in education'' [rawUpload]) ! Suc 0 = InlineData ''application/pdf'' None"
proof -
  have a: "(0::nat) < length [rawUpload]" by simp
  have b: "CHR '','' \<notin> set (base64 ([rawUpload] ! 0))" by (simp add: rawUpload_def)
  show ?thesis
    using a b no_comma_leaves_data_undefined [OF a b, of "''AI in education''"]
    by (simp add: rawUpload_def)
qed

subsection \<open>C10: the code field counts for 429 only\<close>

text \<open>
  The claim as stated fails at an error whose code is 503, whose status does not match
  and whose message does not contain \<open>503\<close>, but whose message contains \<open>429\<close>: it is
  not classified as overload, yet it is retried, as a quota error.
\<close>

theorem code503_with_quota_message_counterexample:
  "code code503QuotaError = JSNumber 503
   \<and> status code503QuotaError \<noteq> JSNumber 503
   \<and> \<not> messageIncludes code503QuotaError ''503''
   \<and> \<not> isServerOverload code503QuotaError
   \<and> analyzeArticles (testEnv (Some ''key'')
        [Threw code503QuotaError, Responded (Some goodText)] [(goodText, goodPayload)])
        ''AI in education'' [pdfUpload] =
        \<lparr>result = Inr goodPayload,
         trace = [Call (mkRequest ''AI in education'' [pdfUpload]), Wait 2000,
                  Call (mkRequest ''AI in education'' [pdfUpload])]\<rparr>"
proof -
  let ?e = "testEnv (Some ''key'')
        [Threw code503QuotaError, Responded (Some goodText)] [(goodText, goodPayload)]"
  let ?r = "mkRequest ''AI in education'' [pdfUpload]"
  have q: "transient code503QuotaError"
    by (simp add: transient_def isQuotaError_def code503QuotaError_def includes_str_def)
  have k: "\<not> falsy (API_KEY ?e)" by (simp add: API_KEY_testEnv falsy_def)
  have t0: "\<forall>i<Suc 0. transientFailure ?e ?r i"
    using q by (simp add: tf_threw scripted_0)
  have r1: "tryBlock ?e ?r (Suc 0) = Inr goodPayload"
    by (simp add: tryBlock_testEnv scripted_0 scripted_Suc parseTable_hit falsy_def
        goodText_nonempty)
  have "analyzeArticles ?e ''AI in education'' [pdfUpload] =
      \<lparr>result = tryBlock ?e ?r (Suc 0), trace = retryTrace ?r 0 (Suc 0)\<rparr>"
    using k t0 transientFailure_Inr [OF r1]
    by (intro analyzeArticles_run) (simp_all add: maxRetries_def)
  then have run: "analyzeArticles ?e ''AI in education'' [pdfUpload] =
      \<lparr>result = Inr goodPayload, trace = [Call ?r, Wait 2000, Call ?r]\<rparr>"
    by (simp add: r1 retryTrace_1)
  have props: "code code503QuotaError = JSNumber 503
      \<and> status code503QuotaError \<noteq> JSNumber 503
      \<and> \<not> messageIncludes code503QuotaError ''503''
      \<and> \<not> isServerOverload code503QuotaError"
    by (simp add: code503QuotaError_def messageIncludes_def isServerOverload_def
        includes_str_def)
  show ?thesis using run props by simp
qed

text \<open>
  C10, as amended. With the key present, let the first \<open>k\<close> attempts end in transient
  failures and let attempt \<open>k\<close> meet an error thrown by the service. If its code field is
  429 it is classified as quota exhaustion, whatever its status and message are, and while
  fewer than 3 retries have been made (\<open>k < 3\<close>) the run goes on with a wait of
  \<open>2000 * 2 ^ k\<close> milliseconds and a further call. If its code field is 503, its status is
  not 503 and its message does not contain \<open>503\<close>, it is not classified as upstream
  overload; if moreover its status is not 429 and its message does not contain \<open>429\<close>,
  it is raised at once, with no call and no wait after the call that met it.
\<close>

theorem code_field_counts_for_429_only:
  assumes "\<not> falsy (API_KEY e)"
    and "\<forall>i<k. transientFailure e (mkRequest topic files) i"
    and "generateContent e k (mkRequest topic files) = Threw err"
  shows "(code err = JSNumber 429 \<longrightarrow> isQuotaError err)
       \<and> (k < maxRetries \<and> code err = JSNumber 429
          \<longrightarrow> (\<exists>rest. trace (analyzeArticles e topic files) =
                  retryTrace (mkRequest topic files) 0 k @
                  Wait (2000 * 2 ^ k) # Call (mkRequest topic files) # rest))
       \<and> (code err = JSNumber 503 \<and> status err \<noteq> JSNumber 503 \<and> \<not> messageIncludes err ''503''
          \<longrightarrow> \<not> isServerOverload err)
       \<and> (k \<le> maxRetries
            \<and> code err = JSNumber 503 \<and> status err \<noteq> JSNumber 503 \<and> \<not> messageIncludes err ''503''
            \<and> status err \<noteq> JSNumber 429 \<and> \<not> messageIncludes err ''429''
          \<longrightarrow> analyzeArticles e topic files =
                \<lparr>result = Inl err, trace = retryTrace (mkRequest topic files) 0 k\<rparr>)"
proof (intro conjI impI)
  let ?r = "mkRequest topic files"
  have tb: "tryBlock e ?r k = Inl err" using assms(3) by (rule tryBlock_threw)
  show "isQuotaError err" if "code err = JSNumber 429"
    using that by (simp add: isQuotaError_def)
  show "\<exists>rest. trace (analyzeArticles e topic files) =
      retryTrace ?r 0 k @ Wait (2000 * 2 ^ k) # Call ?r # rest"
    if h: "k < maxRetries \<and> code err = JSNumber 429"
  proof -
    have "transientFailure e ?r k"
      using h tb by (simp add: transientFailure_def transient_def isQuotaError_def)
    then show ?thesis
      using transient_failure_at_k_retried [OF assms(1) _ assms(2)] h by blast
  qed
  show "\<not> isServerOverload err"
    if "code err = JSNumber 503 \<and> status err \<noteq> JSNumber 503 \<and> \<not> messageIncludes err ''503''"
    using that by (simp add: isServerOverload_iff)
  show "analyzeArticles e topic files = \<lparr>result = Inl err, trace = retryTrace ?r 0 k\<rparr>"
    if h: "k \<le> maxRetries
            \<and> code err = JSNumber 503 \<and> status err \<noteq> JSNumber 503 \<and> \<not> messageIncludes err ''503''
            \<and> status err \<noteq> JSNumber 429 \<and> \<not> messageIncludes err ''429''"
  proof -
    have "\<not> transient err" using h by (simp add: transient_iff)
    then show ?thesis using failure_at_k [OF assms(1) _ assms(2) tb] h by blast
  qed
qed

theorem code_field_witness:
  "\<not> falsy (API_KEY (testEnv (Some ''key'')
        [Threw quotaError, Threw code429Error, Responded (Some goodText)]
        [(goodText, goodPayload)]))
   \<and> transientFailure (testEnv (Some ''key'')
        [Threw quotaError, Threw code429Error, Responded (Some goodText)]
        [(goodText, goodPayload)]) (mkRequest ''AI in education'' [pdfUpload]) 0
   \<and> Suc 0 < maxRetries
   \<and> code code429Error = JSNumber 429
   \<and> isQuotaError code429Error
   \<and> (\<exists>rest. trace (analyzeArticles (testEnv (Some ''key'')
          [Threw quotaError, Threw code429Error, Responded (Some goodText)]
          [(goodText, goodPayload)]) ''AI in education'' [pdfUpload]) =
        [Call (mkRequest ''AI in education'' [pdfUpload]), Wait 2000,
         Call (mkRequest ''AI in education'' [pdfUpload])] @
        Wait 4000 # Call (mkRequest ''AI in education'' [pdfUpload]) # rest)
   \<and> transientFailure (testEnv (Some ''key'')
        [Threw quotaError, Threw code503Error, Responded (Some goodText)]
        [(goodText, goodPayload)]) (mkRequest ''AI in education'' [pdfUpload]) 0
   \<and> code code503Error = JSNumber 503
   \<and> status code503Error \<noteq> JSNumber 503 \<and> \<not> messageIncludes code503Error ''503''
   \<and> status code503Error \<noteq> JSNumber 429 \<and> \<not> messageIncludes code503Error ''429''
   \<and> \<not> isServerOverload code503Error
   \<and> analyzeArticles (testEnv (Some ''key'')
        [Threw quotaError, Threw code503Error, Responded (Some goodText)]
        [(goodText, goodPayload)]) ''AI in education'' [pdfUpload] =
        \<lparr>result = Inl code503Error,
         trace = [Call (mkRequest ''AI in education'' [pdfUpload]), Wait 2000,
                  Call (mkRequest ''AI in education'' [pdfUpload])]\<rparr>"
proof -
  let ?r = "mkRequest ''AI in education'' [pdfUpload]"
  let ?a = "testEnv (Some ''key'')
        [Threw quotaError, Threw code429Error, Responded (Some goodText)]
        [(goodText, goodPayload)]"
  let ?b = "testEnv (Some ''key'')
        [Threw quotaError, Threw code503Error, Responded (Some goodText)]
        [(goodText, goodPayload)]"
  have ka: "\<not> falsy (API_KEY ?a)" and kb: "\<not> falsy (API_KEY ?b)"
    by (simp_all add: API_KEY_testEnv falsy_def)
  have ta: "transientFailure ?a ?r 0" and tb: "transientFailure ?b ?r 0"
    by (simp_all add: tf_threw scripted_0 transient_quotaError)
  have alla: "\<forall>i<Suc 0. transientFailure ?a ?r i" using ta by simp
  have allb: "\<forall>i<Suc 0. transientFailure ?b ?r i" using tb by simp
  have ga: "generateContent ?a (Suc 0) ?r = Threw code429Error" by (simp add: testEnv_simps)
  have gb: "generateContent ?b (Suc 0) ?r = Threw code503Error" by (simp add: testEnv_simps)
  have lt: "Suc 0 < maxRetries" by (simp add: maxRetries_def)
  have ca: "code code429Error = JSNumber 429" by (simp add: code429Error_def)
  have cb: "code code503Error = JSNumber 503 \<and> status code503Error \<noteq> JSNumber 503
      \<and> \<not> messageIncludes code503Error ''503''
      \<and> status code503Error \<noteq> JSNumber 429 \<and> \<not> messageIncludes code503Error ''429''"
    by (simp add: code503Error_def messageIncludes_def includes_str_def)
  note A = code_field_counts_for_429_only [OF ka alla ga]
  note B = code_field_counts_for_429_only [OF kb allb gb]
  have q: "isQuotaError code429Error" using A ca by blast
  have retried: "\<exists>rest. trace (analyzeArticles ?a ''AI in education'' [pdfUpload]) =
      retryTrace ?r 0 (Suc 0) @ Wait (2000 * 2 ^ Suc 0) # Call ?r # rest"
    using A lt ca by blast
  have no: "\<not> isServerOverload code503Error" using B cb by blast
  have raised: "analyzeArticles ?b ''AI in education'' [pdfUpload] =
      \<lparr>result = Inl code503Error, trace = retryTrace ?r 0 (Suc 0)\<rparr>"
    using B cb lt by simp
  show ?thesis
    using ka ta lt ca q retried tb cb no raised by (simp add: retryTrace_1)
qed

end
